theory Spec2Isabelle
  imports Complex_Main
begin

section \<open>Data model of main.py\<close>

text \<open>
  Python \<^verbatim>\<open>int\<close> is \<^typ>\<open>int\<close>, \<^verbatim>\<open>str\<close> is \<^typ>\<open>string\<close>. The geometry of
  the overlays (coordinates, page sizes, font sizes) is written on \<^typ>\<open>real\<close>, the
  source's arithmetic on exact numbers; where a property depends on the rounding of
  Python's \<^verbatim>\<open>float\<close>, the coordinate conversion is also given on IEEE doubles
  (section ``Python floats'').
\<close>

type_synonym bytes = "nat list"

text \<open>
  \<^verbatim>\<open>class FieldRect(BaseModel)\<close>. The fields \<^verbatim>\<open>x, y, width, height\<close> carry the
  prefix \<open>rect_\<close>, since a record field is a constant of the theory.
\<close>

record FieldRect =
  rect_x :: real
  rect_y :: real
  rect_width :: real
  rect_height :: real

text \<open>\<^verbatim>\<open>class FieldData(BaseModel)\<close>\<close>

record FieldData =
  field_name :: string
  field_type :: string
  field_page_num :: int
  field_rect :: FieldRect
  field_answer :: string

text \<open>
  What the libraries hand back. A \<^verbatim>\<open>requests\<close> response with the parts the source
  reads: \<^verbatim>\<open>status_code\<close>, \<^verbatim>\<open>content\<close>, \<^verbatim>\<open>text\<close> and \<^verbatim>\<open>json()\<close>
  (\<open>None\<close> when the body is not JSON and \<^verbatim>\<open>json()\<close> raises).
\<close>

record response =
  resp_status_code :: int
  resp_content :: bytes
  resp_text :: string
  resp_json :: "string option"

text \<open>A decoded PIL image.\<close>

datatype image = Image bytes

text \<open>The value of \<^verbatim>\<open>datetime.now()\<close>.\<close>

record datetime =
  dt_year :: nat
  dt_month :: nat
  dt_day :: nat
  dt_hour :: nat
  dt_minute :: nat
  dt_second :: nat
  dt_microsecond :: nat

text \<open>
  Every exception the source can meet is a value. \<open>HTTPException e\<close> is
  \<^verbatim>\<open>HTTPException(status_code=500, detail=str(e))\<close>.
\<close>

datatype error =
    ConnectionError
  | HTTPError int
  | PdfReadError
  | UnidentifiedImageError
  | ImageSaveError
  | DrawImageError
  | UploadFailed string
  | JSONDecodeError
  | NotConfigured
  | HTTPException error

text \<open>
  What a reportlab canvas has drawn: \<^verbatim>\<open>setFont(name, size)\<close>,
  \<^verbatim>\<open>drawString(x, y, text)\<close> and
  \<^verbatim>\<open>drawImage(path, x, y, width, height, preserveAspectRatio=True, mask='auto')\<close>,
  the latter with the image read from the path.
\<close>

datatype canvas_op =
    SetFont string real
  | DrawString real real string
  | DrawImage image real real real real

text \<open>
  A PDF page: its media box and its content streams, the source document's own
  (opaque) and those merged in from overlays. A document is its list of pages; the
  bytes that \<^verbatim>\<open>PdfWriter.write\<close> produces are represented by the pages they encode.
\<close>

datatype content = SourceContent bytes | OverlayContent "canvas_op list"

record page =
  mediabox_width :: real
  mediabox_height :: real
  contents :: "content list"

type_synonym document = "page list"

text \<open>
  The surroundings of one run, as fixed functions: the network
  (\<^verbatim>\<open>requests.get\<close>, \<^verbatim>\<open>requests.post\<close>), the PDF and image decoders, whether
  \<^verbatim>\<open>img.save\<close> and \<^verbatim>\<open>can.drawImage\<close> succeed, the clock (\<open>datetime_now E k\<close> is
  the value of the \<open>k\<close>-th call of \<^verbatim>\<open>datetime.now()\<close>, \<open>timestamp_str\<close> the text of
  its \<^verbatim>\<open>timestamp()\<close>), and the two environment variables.
\<close>

record env =
  requests_get :: "string \<Rightarrow> error + response"
  requests_post :: "string \<Rightarrow> document \<Rightarrow> (string \<times> string) list \<Rightarrow> error + response"
  PdfReader :: "bytes \<Rightarrow> error + document"
  Image_open :: "bytes \<Rightarrow> error + image"
  Image_save :: "image \<Rightarrow> string \<Rightarrow> bool"
  drawImage_ok :: "image \<Rightarrow> bool"
  datetime_now :: "nat \<Rightarrow> datetime"
  timestamp_str :: "datetime \<Rightarrow> string"
  SUPABASE_URL :: string
  SUPABASE_KEY :: string

text \<open>
  What a run changes: the files of the working directory, the number of clock reads,
  and the calls of \<^verbatim>\<open>requests.post\<close> made (URL, headers, body), oldest first,
  answered or not.
\<close>

record world =
  files :: "string set"
  clock_reads :: nat
  posts :: "(string \<times> (string \<times> string) list \<times> document) list"

section \<open>Downloading\<close>

text \<open>\<^verbatim>\<open>str.startswith\<close>\<close>

definition startswith :: "string \<Rightarrow> string \<Rightarrow> bool" where
  "startswith s p = (take (length p) s = p)"

text \<open>
  \<^verbatim>\<open>PDFFieldFiller.download_file\<close> (lines 94-98): \<^verbatim>\<open>raise_for_status\<close> raises
  on a 4xx or 5xx status.
\<close>

definition download_file :: "env \<Rightarrow> string \<Rightarrow> error + bytes" where
  "download_file E url =
     (case requests_get E url of
        Inl e \<Rightarrow> Inl e
      | Inr response \<Rightarrow>
          if 400 \<le> resp_status_code response \<and> resp_status_code response < 600
          then Inl (HTTPError (resp_status_code response))
          else Inr (resp_content response))"

section \<open>Coordinate conversion\<close>

text \<open>
  \<^verbatim>\<open>PDFFieldFiller.convert_anvil_coordinates\<close> (lines 100-103), on exact numbers: the
  reading used for the geometry of the overlays.
\<close>

definition convert_anvil_coordinates :: "real \<Rightarrow> real \<Rightarrow> real \<Rightarrow> real" where
  "convert_anvil_coordinates anvil_y page_height field_height =
     page_height - anvil_y - field_height"

section \<open>Python floats\<close>











section \<open>The overlay of one field\<close>

text \<open>Lines 126-127: the flag \<^verbatim>\<open>is_signature\<close>.\<close>

definition is_signature :: "FieldData \<Rightarrow> bool" where
  "is_signature field_data =
     (field_type field_data \<in> {''signature'', ''signatureDate''} \<or>
      startswith (field_answer field_data) ''http'')"

text \<open>Line 129: the condition of the image branch.\<close>

definition image_branch :: "FieldData \<Rightarrow> bool" where
  "image_branch field_data =
     (is_signature field_data \<and> startswith (field_answer field_data) ''http'')"

text \<open>Lines 166-167: the font size of a text field.\<close>

definition text_font_size :: "real \<Rightarrow> real" where
  "text_font_size height =
     (let font_size = min (height * 0.6) 12;
          font_size = max font_size 8
      in font_size)"

text \<open>
  Lines 132-156, the body of the \<^verbatim>\<open>try\<close>: \<open>Inr\<close> what was drawn, \<open>Inl\<close> the
  exception that left the block, with the world as it is at that moment. A failed
  \<^verbatim>\<open>img.save\<close> is taken to leave no file behind.
\<close>

definition try_signature ::
  "env \<Rightarrow> world \<Rightarrow> string \<Rightarrow> real \<Rightarrow> real \<Rightarrow> real \<Rightarrow> real \<Rightarrow> world \<times> (error + canvas_op list)" where
  "try_signature E w answer x y width height =
     (case download_file E answer of
        Inl e \<Rightarrow> (w, Inl e)
      | Inr img_data \<Rightarrow>
         (case Image_open E img_data of
            Inl e \<Rightarrow> (w, Inl e)
          | Inr img \<Rightarrow>
             (let now = datetime_now E (clock_reads w);
                  w1 = w\<lparr>clock_reads := Suc (clock_reads w)\<rparr>;
                  temp_img_path = ''temp_sig_'' @ timestamp_str E now @ ''.png''
              in if \<not> Image_save E img temp_img_path then (w1, Inl ImageSaveError)
                 else
                  (let w2 = w1\<lparr>files := insert temp_img_path (files w1)\<rparr>;
                       padding = 2
                   in if \<not> drawImage_ok E img then (w2, Inl DrawImageError)
                      else
                       (let w3 = (if temp_img_path \<in> files w2
                                  then w2\<lparr>files := files w2 - {temp_img_path}\<rparr>
                                  else w2)
                        in (w3, Inr [DrawImage img (x + padding) (y + padding)
                                       (width - 2 * padding) (height - 2 * padding)]))))))"

text \<open>
  \<^verbatim>\<open>can.save()\<close> and the \<^verbatim>\<open>PdfReader(overlay_pdf).pages[0]\<close> of the caller: the
  single page of the overlay document.
\<close>

definition canvas_save :: "real \<Rightarrow> real \<Rightarrow> canvas_op list \<Rightarrow> page" where
  "canvas_save page_width page_height ops =
     \<lparr>mediabox_width = page_width, mediabox_height = page_height,
      contents = [OverlayContent ops]\<rparr>"

text \<open>\<^verbatim>\<open>PDFFieldFiller.create_overlay\<close> (lines 105-176).\<close>

definition create_overlay :: "env \<Rightarrow> world \<Rightarrow> FieldData \<Rightarrow> real \<Rightarrow> real \<Rightarrow> world \<times> page" where
  "create_overlay E w field_data page_width page_height =
     (let x = rect_x (field_rect field_data);
          anvil_y = rect_y (field_rect field_data);
          width = rect_width (field_rect field_data);
          height = rect_height (field_rect field_data);
          y = convert_anvil_coordinates anvil_y page_height height;
          answer = field_answer field_data
      in if image_branch field_data then
           (case try_signature E w answer x y width height of
              (w', Inr ops) \<Rightarrow> (w', canvas_save page_width page_height ops)
            | (w', Inl e) \<Rightarrow>
                (w', canvas_save page_width page_height
                       [SetFont ''Helvetica'' 10,
                        DrawString (x + 2) (y + height / 2) ''[Signature Error]'']))
         else
           (let font_size = text_font_size height;
                text_y = y + (height - font_size) / 2 + 2
            in (w, canvas_save page_width page_height
                     [SetFont ''Helvetica'' font_size, DrawString (x + 3) text_y answer])))"

text \<open>
  The three drawings \<open>create_overlay\<close> can make for a field on a page of the given
  height, named: the error label of lines 160-161, the image of lines 142-150 and the
  text of lines 166-171.
\<close>

abbreviation signature_error_label :: "FieldData \<Rightarrow> real \<Rightarrow> canvas_op list" where
  "signature_error_label f page_height \<equiv>
     [SetFont ''Helvetica'' 10,
      DrawString (rect_x (field_rect f) + 2)
        (convert_anvil_coordinates (rect_y (field_rect f)) page_height (rect_height (field_rect f))
           + rect_height (field_rect f) / 2)
        ''[Signature Error]'']"

abbreviation signature_image_ops :: "FieldData \<Rightarrow> real \<Rightarrow> image \<Rightarrow> canvas_op list" where
  "signature_image_ops f page_height img \<equiv>
     [DrawImage img (rect_x (field_rect f) + 2)
        (convert_anvil_coordinates (rect_y (field_rect f)) page_height (rect_height (field_rect f)) + 2)
        (rect_width (field_rect f) - 2 * 2) (rect_height (field_rect f) - 2 * 2)]"

abbreviation text_ops :: "FieldData \<Rightarrow> real \<Rightarrow> canvas_op list" where
  "text_ops f page_height \<equiv>
     [SetFont ''Helvetica'' (text_font_size (rect_height (field_rect f))),
      DrawString (rect_x (field_rect f) + 3)
        (convert_anvil_coordinates (rect_y (field_rect f)) page_height (rect_height (field_rect f))
           + (rect_height (field_rect f) - text_font_size (rect_height (field_rect f))) / 2 + 2)
        (field_answer f)]"

text \<open>
  The download of the image (line 133) or its decoding by \<^verbatim>\<open>Image.open\<close> (line 134)
  raises.
\<close>

definition fetch_or_decode_fails :: "env \<Rightarrow> string \<Rightarrow> bool" where
  "fetch_or_decode_fails E url =
     (case download_file E url of
        Inl e \<Rightarrow> True
      | Inr img_data \<Rightarrow> (case Image_open E img_data of Inl e \<Rightarrow> True | Inr img \<Rightarrow> False))"

section \<open>Filling a document\<close>

text \<open>
  \<^verbatim>\<open>page.merge_page(overlay_page)\<close>: the overlay's content streams are drawn after
  the page's own; the media box stays.
\<close>

definition merge_page :: "page \<Rightarrow> page \<Rightarrow> page" where
  "merge_page page overlay_page = page\<lparr>contents := contents page @ contents overlay_page\<rparr>"

text \<open>
  Lines 188-193: the dictionary \<^verbatim>\<open>fields_by_page\<close>, built field by field. The second
  argument is the dictionary so far.
\<close>

fun group_fields :: "FieldData list \<Rightarrow> (int \<rightharpoonup> FieldData list) \<Rightarrow> (int \<rightharpoonup> FieldData list)" where
  "group_fields [] fields_by_page = fields_by_page"
| "group_fields (field # rest) fields_by_page =
     (let page_num = field_page_num field;
          fields_by_page1 = (if page_num \<notin> dom fields_by_page
                             then fields_by_page(page_num \<mapsto> [])
                             else fields_by_page)
      in group_fields rest
           (fields_by_page1(page_num \<mapsto> the (fields_by_page1 page_num) @ [field])))"

text \<open>Lines 209-213: the overlays of one page, created and merged in turn.\<close>

fun merge_overlays :: "env \<Rightarrow> world \<Rightarrow> page \<Rightarrow> real \<Rightarrow> real \<Rightarrow> FieldData list \<Rightarrow> world \<times> page" where
  "merge_overlays E w page page_width page_height [] = (w, page)"
| "merge_overlays E w page page_width page_height (field # rest) =
     (case create_overlay E w field page_width page_height of
        (w', overlay_page) \<Rightarrow>
          merge_overlays E w' (merge_page page overlay_page) page_width page_height rest)"

text \<open>
  Lines 198-215: the loop over \<^verbatim>\<open>range(len(pdf_reader.pages))\<close>, as a recursion over
  the pages still to come; \<open>page_num\<close> is the index of the first of them and
  \<open>pdf_writer\<close> the pages added so far.
\<close>

fun process_pages ::
  "env \<Rightarrow> (int \<rightharpoonup> FieldData list) \<Rightarrow> world \<Rightarrow> int \<Rightarrow> page list \<Rightarrow> document \<Rightarrow> world \<times> document" where
  "process_pages E fields_by_page w page_num [] pdf_writer = (w, pdf_writer)"
| "process_pages E fields_by_page w page_num (page # rest) pdf_writer =
     (if page_num \<in> dom fields_by_page then
        (let page_width = mediabox_width page;
             page_height = mediabox_height page
         in case merge_overlays E w page page_width page_height (the (fields_by_page page_num)) of
              (w', page') \<Rightarrow>
                process_pages E fields_by_page w' (page_num + 1) rest (pdf_writer @ [page']))
      else process_pages E fields_by_page w (page_num + 1) rest (pdf_writer @ [page]))"

text \<open>\<^verbatim>\<open>PDFFieldFiller.fill_pdf\<close> (lines 178-221).\<close>

definition fill_pdf :: "env \<Rightarrow> world \<Rightarrow> string \<Rightarrow> FieldData list \<Rightarrow> world \<times> (error + document)" where
  "fill_pdf E w pdf_url fields_data =
     (case download_file E pdf_url of
        Inl e \<Rightarrow> (w, Inl e)
      | Inr pdf_bytes \<Rightarrow>
         (case PdfReader E pdf_bytes of
            Inl e \<Rightarrow> (w, Inl e)
          | Inr pdf_reader_pages \<Rightarrow>
             (let fields_by_page = group_fields fields_data Map.empty
              in case process_pages E fields_by_page w 0 pdf_reader_pages [] of
                   (w', output) \<Rightarrow> (w', Inr output))))"

section \<open>The storage client and the upload\<close>

text \<open>\<^verbatim>\<open>class SupabaseStorageClient\<close>; \<^verbatim>\<open>__init__\<close> strips trailing slashes from the URL.\<close>

record SupabaseStorageClient =
  client_url :: string
  client_key :: string

definition rstrip_slash :: "string \<Rightarrow> string" where
  "rstrip_slash s = rev (dropWhile (\<lambda>c. c = CHR ''/'') (rev s))"

definition SupabaseStorageClient_init :: "string \<Rightarrow> string \<Rightarrow> SupabaseStorageClient" where
  "SupabaseStorageClient_init url key = \<lparr>client_url = rstrip_slash url, client_key = key\<rparr>"

text \<open>
  How an f-string shows the request's \<^verbatim>\<open>bucket: Optional[str]\<close>: \<^verbatim>\<open>None\<close> reads
  \<^verbatim>\<open>'None'\<close>.
\<close>

definition format_bucket :: "string option \<Rightarrow> string" where
  "format_bucket bucket = (case bucket of None \<Rightarrow> ''None'' | Some b \<Rightarrow> b)"

text \<open>\<^verbatim>\<open>SupabaseStorageClient.upload\<close> (lines 68-82).\<close>

definition upload ::
  "env \<Rightarrow> world \<Rightarrow> SupabaseStorageClient \<Rightarrow> string option \<Rightarrow> string \<Rightarrow> document
     \<Rightarrow> world \<times> (error + string)" where
  "upload E w self bucket path file_data =
     (let upload_url = client_url self @ ''/storage/v1/object/'' @ format_bucket bucket @ ''/'' @ path;
          headers = [(''Authorization'', ''Bearer '' @ client_key self),
                     (''Content-Type'', ''application/pdf'')];
          w' = w\<lparr>posts := posts w @ [(upload_url, headers, file_data)]\<rparr>
      in case requests_post E upload_url file_data headers of
           Inl e \<Rightarrow> (w', Inl e)
         | Inr response \<Rightarrow>
             if resp_status_code response \<notin> {200, 201}
             then (w', Inl (UploadFailed (resp_text response)))
             else (case resp_json response of
                     None \<Rightarrow> (w', Inl JSONDecodeError)
                   | Some j \<Rightarrow> (w', Inr j)))"

text \<open>\<^verbatim>\<open>SupabaseStorageClient.get_public_url\<close> (lines 84-86).\<close>

definition get_public_url :: "SupabaseStorageClient \<Rightarrow> string option \<Rightarrow> string \<Rightarrow> string" where
  "get_public_url self bucket path =
     client_url self @ ''/storage/v1/object/public/'' @ format_bucket bucket @ ''/'' @ path"

text \<open>
  \<^verbatim>\<open>strftime("%Y%m%d_%H%M%S")\<close>: decimal digits, the year on four places (the years
  1000 to 9999), the other parts on two.
\<close>

definition digit :: "nat \<Rightarrow> char" where
  "digit n = ''0123456789'' ! (n mod 10)"

definition strftime_Ymd_HMS :: "datetime \<Rightarrow> string" where
  "strftime_Ymd_HMS d =
     [digit (dt_year d div 1000), digit (dt_year d div 100), digit (dt_year d div 10),
      digit (dt_year d),
      digit (dt_month d div 10), digit (dt_month d),
      digit (dt_day d div 10), digit (dt_day d),
      CHR ''_'',
      digit (dt_hour d div 10), digit (dt_hour d),
      digit (dt_minute d div 10), digit (dt_minute d),
      digit (dt_second d div 10), digit (dt_second d)]"

text \<open>\<^verbatim>\<open>PDFFieldFiller.upload_to_supabase\<close> (lines 223-233); \<open>self\<close> is \<^verbatim>\<open>self.storage\<close>.\<close>

definition upload_to_supabase ::
  "env \<Rightarrow> world \<Rightarrow> SupabaseStorageClient \<Rightarrow> document \<Rightarrow> string \<Rightarrow> string option
     \<Rightarrow> world \<times> (error + string)" where
  "upload_to_supabase E w self pdf_data filename bucket =
     (let now = datetime_now E (clock_reads w);
          w1 = w\<lparr>clock_reads := Suc (clock_reads w)\<rparr>;
          timestamp = strftime_Ymd_HMS now;
          unique_filename = ''filled_'' @ timestamp @ ''_'' @ filename
      in case upload E w1 self bucket unique_filename pdf_data of
           (w2, Inl e) \<Rightarrow> (w2, Inl e)
         | (w2, Inr ack) \<Rightarrow> (w2, Inr (get_public_url self bucket unique_filename)))"

section \<open>The endpoint\<close>

text \<open>\<^verbatim>\<open>class FillPDFRequest\<close> and \<^verbatim>\<open>class FillPDFResponse\<close>.\<close>

record FillPDFRequest =
  req_pdf_url :: string
  req_fields :: "FieldData list"
  req_filename :: string
  req_bucket :: "string option"

record FillPDFResponse =
  res_success :: bool
  res_message :: string
  res_pdf_url :: "string option"
  res_filename :: "string option"

text \<open>
  The handler of \<^verbatim>\<open>POST /fill-pdf\<close> (lines 255-286). \<open>NotConfigured\<close> is the
  exception raised at line 261; like every other exception it is caught at line 284 and
  wrapped. The message is the UTF-8 text of line 279.
\<close>

definition fill_pdf_endpoint :: "env \<Rightarrow> world \<Rightarrow> FillPDFRequest \<Rightarrow> world \<times> (error + FillPDFResponse)" where
  "fill_pdf_endpoint E w request =
     (if SUPABASE_URL E = [] \<or> SUPABASE_KEY E = []
      then (w, Inl (HTTPException NotConfigured))
      else
       (let filler = SupabaseStorageClient_init (SUPABASE_URL E) (SUPABASE_KEY E)
        in case fill_pdf E w (req_pdf_url request) (req_fields request) of
             (w1, Inl e) \<Rightarrow> (w1, Inl (HTTPException e))
           | (w1, Inr filled_pdf) \<Rightarrow>
              (case upload_to_supabase E w1 filler filled_pdf (req_filename request)
                      (req_bucket request) of
                 (w2, Inl e) \<Rightarrow> (w2, Inl (HTTPException e))
               | (w2, Inr public_url) \<Rightarrow>
                   (w2, Inr \<lparr>res_success = True,
                             res_message = ''PDF '' @ [CHR 0xE5, CHR 0xA1, CHR 0xAB, CHR 0xE5, CHR 0xAF, CHR 0xAB,
                                                      CHR 0xE6, CHR 0x88, CHR 0x90, CHR 0xE5, CHR 0x8A, CHR 0x9F],
                             res_pdf_url = Some public_url,
                             res_filename = Some (req_filename request)\<rparr>))))"

section \<open>The specification's wording, for comparison\<close>

text \<open>
  Two notions that occur in the specification and not in the source. ``A syntactically
  valid absolute URL (scheme present)'': the text starts with a scheme in the sense of
  RFC 3986, a letter followed by letters, digits, \<open>+\<close>, \<open>-\<close> or \<open>.\<close>, and then a colon.
  ``A 2xx response'': a status from 200 to 299.
\<close>

definition spec_alpha :: "char \<Rightarrow> bool" where
  "spec_alpha c = (c \<in> set (''abcdefghijklmnopqrstuvwxyz'' @ ''ABCDEFGHIJKLMNOPQRSTUVWXYZ''))"

definition spec_scheme_char :: "char \<Rightarrow> bool" where
  "spec_scheme_char c = (spec_alpha c \<or> c \<in> set ''0123456789+-.'')"

definition spec_absolute_url :: "string \<Rightarrow> bool" where
  "spec_absolute_url s =
     (case takeWhile (\<lambda>c. c \<noteq> CHR '':'') s of
        [] \<Rightarrow> False
      | c # cs \<Rightarrow> spec_alpha c \<and> list_all spec_scheme_char cs
                 \<and> dropWhile (\<lambda>c. c \<noteq> CHR '':'') s \<noteq> [])"

definition spec_2xx :: "int \<Rightarrow> bool" where
  "spec_2xx status = (200 \<le> status \<and> status < 300)"

section \<open>A concrete run\<close>

text \<open>
  Surroundings for the worked examples below: a three-page source document of
  612 by 792 units, one image that can be staged and drawn, one that can be staged
  and not drawn, one URL that answers 404, and a storage service that acknowledges
  every upload with 200.
\<close>

definition example_page :: "bytes \<Rightarrow> page" where
  "example_page b = \<lparr>mediabox_width = 612, mediabox_height = 792, contents = [SourceContent b]\<rparr>"

definition example_doc :: document where
  "example_doc = [example_page [1], example_page [2], example_page [3]]"

definition example_get :: "string \<Rightarrow> error + response" where
  "example_get url =
     (if url = ''http://files/source.pdf''
      then Inr \<lparr>resp_status_code = 200, resp_content = [37, 80, 68, 70], resp_text = [], resp_json = None\<rparr>
      else if url = ''http://files/sig.png''
      then Inr \<lparr>resp_status_code = 200, resp_content = [137, 80, 78, 71], resp_text = [], resp_json = None\<rparr>
      else if url = ''http://files/odd.png''
      then Inr \<lparr>resp_status_code = 200, resp_content = [73, 73, 42, 0], resp_text = [], resp_json = None\<rparr>
      else if url = ''http://files/missing.png''
      then Inr \<lparr>resp_status_code = 404, resp_content = [], resp_text = ''Not Found'', resp_json = None\<rparr>
      else Inl ConnectionError)"

definition example_post :: "int \<Rightarrow> string option \<Rightarrow> string \<Rightarrow> document \<Rightarrow> (string \<times> string) list \<Rightarrow> error + response" where
  "example_post status body url file_data headers =
     Inr \<lparr>resp_status_code = status, resp_content = [], resp_text = ''ack'', resp_json = body\<rparr>"

definition example_env :: env where
  "example_env =
     \<lparr>requests_get = example_get,
      requests_post = example_post 200 (Some ''{}''),
      PdfReader = (\<lambda>b. if b = [37, 80, 68, 70] then Inr example_doc else Inl PdfReadError),
      Image_open = (\<lambda>b. if b = [137, 80, 78, 71] \<or> b = [73, 73, 42, 0] then Inr (Image b)
                          else Inl UnidentifiedImageError),
      Image_save = (\<lambda>img path. True),
      drawImage_ok = (\<lambda>img. img \<noteq> Image [73, 73, 42, 0]),
      datetime_now = (\<lambda>k. \<lparr>dt_year = 2026, dt_month = 11, dt_day = 4, dt_hour = 9, dt_minute = 5,
                             dt_second = k mod 60, dt_microsecond = 0\<rparr>),
      timestamp_str = (\<lambda>d. ''17937831'' @ [''0123456789'' ! (dt_second d div 10 mod 10),
                                               ''0123456789'' ! (dt_second d mod 10)] @ ''.0''),
      SUPABASE_URL = ''https://store.example/'',
      SUPABASE_KEY = ''k''\<rparr>"

definition example_world :: world where
  "example_world = \<lparr>files = {}, clock_reads = 0, posts = []\<rparr>"

definition example_field :: "int \<Rightarrow> string \<Rightarrow> string \<Rightarrow> FieldData" where
  "example_field n kind answer =
     \<lparr>field_name = ''f'', field_type = kind, field_page_num = n,
      field_rect = \<lparr>rect_x = 50, rect_y = 100, rect_width = 200, rect_height = 20\<rparr>,
      field_answer = answer\<rparr>"

definition example_request :: FillPDFRequest where
  "example_request =
     \<lparr>req_pdf_url = ''http://files/source.pdf'',
      req_fields = [example_field 0 ''text'' ''Jane Doe'',
                    example_field 2 ''signature'' ''http://files/sig.png''],
      req_filename = ''form.pdf'', req_bucket = Some ''finishpdf''\<rparr>"

section \<open>Properties\<close>

subsection \<open>The coordinate conversion on floats\<close>







subsection \<open>The loops\<close>

lemma group_fields_lookup:
  "group_fields fs m k =
     (if filter (\<lambda>f. field_page_num f = k) fs = [] then m k
      else Some ((case m k of None \<Rightarrow> [] | Some l \<Rightarrow> l) @ filter (\<lambda>f. field_page_num f = k) fs))"
proof (induction fs arbitrary: m)
  case Nil
  show ?case by simp
next
  case (Cons f fs)
  show ?case
    by (cases "m (field_page_num f)") (auto simp: Cons.IH Let_def domIff)
qed

lemma process_pages_cong:
  "(\<And>j. j < length pages \<Longrightarrow> m (i + int j) = m' (i + int j)) \<Longrightarrow>
   process_pages E m w i pages out = process_pages E m' w i pages out"
proof (induction pages arbitrary: w i out)
  case Nil
  show ?case by simp
next
  case (Cons p ps)
  have here: "m i = m' i" using Cons.prems [of 0] by simp
  have rest: "\<And>w out. process_pages E m w (i + 1) ps out = process_pages E m' w (i + 1) ps out"
  proof (rule Cons.IH)
    fix j assume "j < length ps"
    then show "m (i + 1 + int j) = m' (i + 1 + int j)"
      using Cons.prems [of "Suc j"] by (simp add: algebra_simps)
  qed
  show ?case
    by (simp add: here rest domIff split: prod.splits)
qed

lemma process_pages_shape:
  "\<exists>ps. snd (process_pages E m w i pages out) = out @ ps \<and> length ps = length pages \<and>
        (\<forall>j<length pages. m (i + int j) = None \<longrightarrow> ps ! j = pages ! j)"
proof (induction pages arbitrary: w i out)
  case Nil
  show ?case by simp
next
  case (Cons p ps)
  obtain w1 p1 where step:
    "process_pages E m w i (p # ps) out = process_pages E m w1 (i + 1) ps (out @ [p1])"
    and keep: "m i = None \<longrightarrow> p1 = p"
  proof (cases "m i")
    case None
    then have "process_pages E m w i (p # ps) out = process_pages E m w (i + 1) ps (out @ [p])"
      by (simp add: domIff)
    with None that show ?thesis by blast
  next
    case (Some fs)
    obtain w' p' where "merge_overlays E w p (mediabox_width p) (mediabox_height p) fs = (w', p')"
      by (cases "merge_overlays E w p (mediabox_width p) (mediabox_height p) fs")
    with Some have "process_pages E m w i (p # ps) out = process_pages E m w' (i + 1) ps (out @ [p'])"
      by (simp add: domIff)
    with Some that show ?thesis by simp
  qed
  from Cons.IH [of w1 "i + 1" "out @ [p1]"] obtain qs where
    qs: "snd (process_pages E m w1 (i + 1) ps (out @ [p1])) = (out @ [p1]) @ qs"
        "length qs = length ps"
        "\<forall>j<length ps. m (i + 1 + int j) = None \<longrightarrow> qs ! j = ps ! j"
    by blast
  have "\<forall>j<length (p # ps). m (i + int j) = None \<longrightarrow> (p1 # qs) ! j = (p # ps) ! j"
  proof (intro allI impI)
    fix j assume j: "j < length (p # ps)" and none: "m (i + int j) = None"
    show "(p1 # qs) ! j = (p # ps) ! j"
    proof (cases j)
      case 0
      with none keep show ?thesis by simp
    next
      case (Suc k)
      with j none qs(3) show ?thesis by (simp add: algebra_simps)
    qed
  qed
  with qs step show ?case by (intro exI [of _ "p1 # qs"]) simp
qed

text \<open>
  One turn of the page loop, the loop over two stretches of pages, and the pages
  already written, which the loop only extends.
\<close>

lemma process_pages_step:
  "process_pages E m w i (p # ps) out =
     (case merge_overlays E w p (mediabox_width p) (mediabox_height p)
             (case m i of None \<Rightarrow> [] | Some fs \<Rightarrow> fs) of
        (w', p') \<Rightarrow> process_pages E m w' (i + 1) ps (out @ [p']))"
  by (simp add: domIff split: option.splits)

lemma group_fields_on_page:
  "(case group_fields fs Map.empty k of None \<Rightarrow> [] | Some l \<Rightarrow> l)
     = filter (\<lambda>g. field_page_num g = k) fs"
  by (simp add: group_fields_lookup)

lemma process_pages_append:
  "process_pages E m w i (ps @ qs) out =
     (case process_pages E m w i ps out of
        (w', out') \<Rightarrow> process_pages E m w' (i + int (length ps)) qs out')"
proof (induction ps arbitrary: w i out)
  case Nil
  show ?case by simp
next
  case (Cons p ps)
  show ?case
    by (simp add: Cons.IH domIff algebra_simps split: prod.splits)
qed

lemma process_pages_out:
  "process_pages E m w i ps out =
     (fst (process_pages E m w i ps []), out @ snd (process_pages E m w i ps []))"
proof (induction ps arbitrary: w i out)
  case Nil
  show ?case by simp
next
  case (Cons p ps)
  obtain w1 p1 where step:
    "merge_overlays E w p (mediabox_width p) (mediabox_height p)
       (case m i of None \<Rightarrow> [] | Some fs \<Rightarrow> fs) = (w1, p1)"
    by (cases "merge_overlays E w p (mediabox_width p) (mediabox_height p)
                 (case m i of None \<Rightarrow> [] | Some fs \<Rightarrow> fs)")
  have a: "process_pages E m w i (p # ps) out = process_pages E m w1 (i + 1) ps (out @ [p1])"
    by (simp only: process_pages_step step prod.case)
  have b: "process_pages E m w i (p # ps) [] = process_pages E m w1 (i + 1) ps [p1]"
    by (simp only: process_pages_step step prod.case append_Nil)
  have c: "process_pages E m w1 (i + 1) ps (out @ [p1])
             = (fst (process_pages E m w1 (i + 1) ps []),
                (out @ [p1]) @ snd (process_pages E m w1 (i + 1) ps []))"
    by (rule Cons.IH)
  have d: "process_pages E m w1 (i + 1) ps [p1]
             = (fst (process_pages E m w1 (i + 1) ps []),
                [p1] @ snd (process_pages E m w1 (i + 1) ps []))"
    by (rule Cons.IH)
  show ?case
    unfolding a b by (simp add: c d)
qed

subsection \<open>The overlay of one field\<close>

text \<open>The text branch, written out.\<close>

lemma create_overlay_text:
  "\<not> startswith (field_answer f) ''http'' \<Longrightarrow>
   create_overlay E w f pw ph =
     (w, canvas_save pw ph
           [SetFont ''Helvetica'' (text_font_size (rect_height (field_rect f))),
            DrawString (rect_x (field_rect f) + 3)
              (convert_anvil_coordinates (rect_y (field_rect f)) ph (rect_height (field_rect f))
                 + (rect_height (field_rect f) - text_font_size (rect_height (field_rect f))) / 2 + 2)
              (field_answer f)])"
  by (simp add: create_overlay_def image_branch_def Let_def)

text \<open>When the image is drawn, the staged file is removed again.\<close>

lemma create_overlay_removes_staged_file:
  "create_overlay example_env example_world
       (example_field 0 ''signature'' ''http://files/sig.png'') 612 792
     = (\<lparr>files = {}, clock_reads = 1, posts = []\<rparr>,
        canvas_save 612 792 [DrawImage (Image [137, 80, 78, 71]) 52 674 196 16])"
  by (simp add: create_overlay_def image_branch_def is_signature_def startswith_def
        try_signature_def download_file_def example_env_def example_get_def example_world_def
        example_field_def convert_anvil_coordinates_def Let_def)

text \<open>The branch taken, the image branch written out, and the declared type, which no
  drawing depends on.\<close>

lemma image_branch_iff: "image_branch f \<longleftrightarrow> startswith (field_answer f) ''http''"
  by (auto simp: image_branch_def is_signature_def)

lemma create_overlay_image:
  assumes "startswith (field_answer f) ''http''"
  shows "snd (create_overlay E w f pw ph) =
           canvas_save pw ph
             (case download_file E (field_answer f) of
                Inl e \<Rightarrow> signature_error_label f ph
              | Inr img_data \<Rightarrow>
                 (case Image_open E img_data of
                    Inl e \<Rightarrow> signature_error_label f ph
                  | Inr img \<Rightarrow>
                     if Image_save E img
                          (''temp_sig_'' @ timestamp_str E (datetime_now E (clock_reads w)) @ ''.png'')
                        \<and> drawImage_ok E img
                     then signature_image_ops f ph img
                     else signature_error_label f ph))"
  using assms
  by (simp add: create_overlay_def image_branch_iff try_signature_def Let_def split: sum.splits)

lemma create_overlay_kind:
  "create_overlay E w (f\<lparr>field_type := kind\<rparr>) pw ph = create_overlay E w f pw ph"
  by (simp add: create_overlay_def image_branch_iff)

text \<open>
  A field whose download or decoding fails leaves the world as it is; every overlay is
  a page of one content stream; and the overlays of a page are merged one after the
  other, whatever the page holds already.
\<close>

lemma create_overlay_fetch_or_decode_fails:
  assumes "startswith (field_answer f) ''http''" and "fetch_or_decode_fails E (field_answer f)"
  shows "create_overlay E w f pw ph = (w, canvas_save pw ph (signature_error_label f ph))"
  using assms
  by (auto simp: create_overlay_def image_branch_iff try_signature_def fetch_or_decode_fails_def
        Let_def split: sum.splits)

lemma create_overlay_one_stream:
  "\<exists>ops. snd (create_overlay E w f pw ph) = canvas_save pw ph ops"
  by (auto simp: create_overlay_def Let_def split: prod.splits sum.splits)

lemma merge_overlays_append:
  "merge_overlays E w p pw ph (fs @ gs) =
     (case merge_overlays E w p pw ph fs of (w1, p1) \<Rightarrow> merge_overlays E w1 p1 pw ph gs)"
  by (induction fs arbitrary: w p) (simp_all split: prod.splits)

lemma merge_overlays_contents:
  "\<exists>W C. length C = length fs \<and>
         (\<forall>p. merge_overlays E w p pw ph fs = (W, p\<lparr>contents := contents p @ C\<rparr>))"
proof (induction fs arbitrary: w)
  case Nil
  show ?case by simp
next
  case (Cons f fs)
  obtain w1 ov where co: "create_overlay E w f pw ph = (w1, ov)"
    by (cases "create_overlay E w f pw ph")
  obtain ops where "snd (create_overlay E w f pw ph) = canvas_save pw ph ops"
    using create_overlay_one_stream by blast
  with co have ov: "contents ov = [OverlayContent ops]"
    by (simp add: canvas_save_def)
  from Cons.IH [of w1] obtain W C where
    C: "length C = length fs"
       "\<And>p. merge_overlays E w1 p pw ph fs = (W, p\<lparr>contents := contents p @ C\<rparr>)"
    by blast
  have "\<forall>p. merge_overlays E w p pw ph (f # fs)
            = (W, p\<lparr>contents := contents p @ (OverlayContent ops # C)\<rparr>)"
    by (simp add: co C(2) merge_page_def ov)
  with C(1) show ?case
    by (intro exI [of _ W] exI [of _ "OverlayContent ops # C"]) simp
qed

lemma merge_overlays_failed_field:
  assumes co: "\<And>w. create_overlay E w f pw ph = (w, canvas_save pw ph label)"
  shows "\<exists>W p2. merge_overlays E w p pw ph (fs @ gs) = (W, p2) \<and>
           merge_overlays E w p pw ph (fs @ f # gs) =
             (W, p2\<lparr>contents :=
                     take (length (contents p) + length fs) (contents p2)
                     @ [OverlayContent label]
                     @ drop (length (contents p) + length fs) (contents p2)\<rparr>)"
proof -
  obtain W1 C1 where 1: "length C1 = length fs"
      "\<And>q. merge_overlays E w q pw ph fs = (W1, q\<lparr>contents := contents q @ C1\<rparr>)"
    using merge_overlays_contents [of fs E w pw ph] by blast
  obtain W2 C2 where 2:
      "\<And>q. merge_overlays E W1 q pw ph gs = (W2, q\<lparr>contents := contents q @ C2\<rparr>)"
    using merge_overlays_contents [of gs E W1 pw ph] by blast
  have without: "merge_overlays E w p pw ph (fs @ gs)
                   = (W2, p\<lparr>contents := contents p @ C1 @ C2\<rparr>)"
    by (simp add: merge_overlays_append 1(2) 2)
  have "with": "merge_overlays E w p pw ph (fs @ f # gs)
                   = (W2, p\<lparr>contents := contents p @ C1 @ [OverlayContent label] @ C2\<rparr>)"
    by (simp add: merge_overlays_append 1(2) 2 co merge_page_def canvas_save_def)
  show ?thesis
    by (simp add: without "with" 1(1))
qed

text \<open>
  C2, as the code has it. A field takes the image branch exactly when its answer starts
  with the four characters \<open>http\<close>, and the declared type changes nothing. A field
  whose answer does not start so is drawn as text. A field whose answer does is never
  drawn as text: its overlay is the image, inset by 2, when the image is fetched,
  decoded, staged and drawn, and the error label otherwise.
\<close>

theorem C2_image_branch:
  "(image_branch f \<longleftrightarrow> startswith (field_answer f) ''http'')
   \<and> create_overlay E w (f\<lparr>field_type := kind\<rparr>) pw ph = create_overlay E w f pw ph
   \<and> (\<not> startswith (field_answer f) ''http'' \<longrightarrow>
        create_overlay E w f pw ph = (w, canvas_save pw ph (text_ops f ph)))
   \<and> (startswith (field_answer f) ''http'' \<longrightarrow>
        snd (create_overlay E w f pw ph) =
          canvas_save pw ph
            (case download_file E (field_answer f) of
               Inl e \<Rightarrow> signature_error_label f ph
             | Inr img_data \<Rightarrow>
                (case Image_open E img_data of
                   Inl e \<Rightarrow> signature_error_label f ph
                 | Inr img \<Rightarrow>
                    if Image_save E img
                         (''temp_sig_'' @ timestamp_str E (datetime_now E (clock_reads w)) @ ''.png'')
                       \<and> drawImage_ok E img
                    then signature_image_ops f ph img
                    else signature_error_label f ph)))"
  using create_overlay_image [of f E w pw ph] create_overlay_text [of f E w pw ph]
  by (simp add: image_branch_iff create_overlay_kind)

text \<open>
  C2 at a signature field whose answer is the text \<open>Jane Doe\<close>, and at two text fields
  whose answers start with \<open>http\<close>, one with an image behind it and one answering 404.
\<close>

theorem C2_image_branch_witness:
  "\<not> startswith ''Jane Doe'' ''http''
   \<and> create_overlay example_env example_world (example_field 0 ''signature'' ''Jane Doe'') 612 792
     = (example_world,
        canvas_save 612 792 [SetFont ''Helvetica'' 12, DrawString 53 678 ''Jane Doe''])
   \<and> startswith ''http://files/sig.png'' ''http''
   \<and> snd (create_overlay example_env example_world
            (example_field 0 ''text'' ''http://files/sig.png'') 612 792)
     = canvas_save 612 792 [DrawImage (Image [137, 80, 78, 71]) 52 674 196 16]
   \<and> snd (create_overlay example_env example_world
            (example_field 0 ''text'' ''http://files/missing.png'') 612 792)
     = canvas_save 612 792 [SetFont ''Helvetica'' 10, DrawString 52 682 ''[Signature Error]'']"
  using C2_image_branch [of "example_field 0 ''signature'' ''Jane Doe''" example_env example_world
          "''signature''" 612 792]
        C2_image_branch [of "example_field 0 ''text'' ''http://files/sig.png''" example_env
          example_world "''text''" 612 792]
        C2_image_branch [of "example_field 0 ''text'' ''http://files/missing.png''" example_env
          example_world "''text''" 612 792]
  by (simp add: startswith_def example_field_def text_font_size_def convert_anvil_coordinates_def
        download_file_def example_env_def example_get_def example_world_def)

text \<open>
  C2 as stated fails in both directions: \<open>ftp://files/sig.png\<close> is an absolute URL and
  is drawn as text even on a signature field, and \<open>httpfoo\<close> is no URL and takes the
  image branch.
\<close>

theorem C2_counterexample:
  "spec_absolute_url ''ftp://files/sig.png''
   \<and> \<not> image_branch (example_field 0 ''signature'' ''ftp://files/sig.png'')
   \<and> \<not> spec_absolute_url ''httpfoo''
   \<and> image_branch (example_field 0 ''text'' ''httpfoo'')"
  by (simp add: spec_absolute_url_def spec_alpha_def spec_scheme_char_def image_branch_def
        is_signature_def startswith_def example_field_def)

text \<open>
  C3 fails on the code. The image behind \<open>http://files/odd.png\<close> is fetched, decoded and
  staged, and \<^verbatim>\<open>drawImage\<close> raises: the handler draws the error label, the removal of
  lines 155-156 is skipped, and the staged file is still there when \<open>create_overlay\<close>
  returns.
\<close>

theorem C3_temp_file_left:
  "files example_world = {} \<and>
   create_overlay example_env example_world
       (example_field 0 ''signature'' ''http://files/odd.png'') 612 792
     = (\<lparr>files = {''temp_sig_1793783100.0.png''}, clock_reads = 1, posts = []\<rparr>,
        canvas_save 612 792 [SetFont ''Helvetica'' 10, DrawString 52 682 ''[Signature Error]''])"
  by (simp add: create_overlay_def image_branch_def is_signature_def startswith_def
        try_signature_def download_file_def example_env_def example_get_def example_world_def
        example_field_def convert_anvil_coordinates_def Let_def)

text \<open>
  C7. For every height the font size of a text field lies between 8 and 12, and it is
  \<open>height * 0.6\<close> exactly when that value lies between 8 and 12.
\<close>

theorem C7_text_font_size:
  "8 \<le> text_font_size height \<and> text_font_size height \<le> 12
   \<and> (text_font_size height = height * 0.6 \<longleftrightarrow> 8 \<le> height * 0.6 \<and> height * 0.6 \<le> 12)"
  by (auto simp: text_font_size_def Let_def min_def max_def)

text \<open>C7 at the heights 15, 20, 40 and 5.\<close>

theorem C7_text_font_size_witness:
  "text_font_size 15 = 9 \<and> text_font_size 20 = 12 \<and> text_font_size 40 = 12 \<and> text_font_size 5 = 8"
  using C7_text_font_size [of 15] C7_text_font_size [of 20]
  by (simp add: text_font_size_def)

subsection \<open>Runs that load their source, and uploads\<close>

text \<open>Once the source document is fetched and decoded, \<open>fill_pdf\<close> returns a document.\<close>

lemma fill_pdf_returns:
  assumes "download_file E pdf_url = Inr pdf_bytes" and "PdfReader E pdf_bytes = Inr src"
  shows "fill_pdf E w pdf_url fields_data =
           (fst (process_pages E (group_fields fields_data Map.empty) w 0 src []),
            Inr (snd (process_pages E (group_fields fields_data Map.empty) w 0 src [])))"
  using assms by (simp add: fill_pdf_def Let_def split: prod.splits)

text \<open>
  A field whose overlay is made without touching the world, on a page of the document:
  the run is the run without the field, with the field's content stream put on its page
  after those of the fields before it.
\<close>

lemma fill_pdf_failed_field:
  assumes load: "download_file E url = Inr b" "PdfReader E b = Inr src"
    and range: "0 \<le> field_page_num f" "field_page_num f < int (length src)"
    and co: "\<And>w pw ph. create_overlay E w f pw ph = (w, canvas_save pw ph (label ph))"
  shows "\<exists>w' out0.
           fill_pdf E w url (xs @ ys) = (w', Inr out0) \<and>
           fill_pdf E w url (xs @ f # ys) =
             (w', Inr (out0[nat (field_page_num f) :=
                (out0 ! nat (field_page_num f))\<lparr>contents :=
                   take (length (contents (src ! nat (field_page_num f)))
                         + length (filter (\<lambda>g. field_page_num g = field_page_num f) xs))
                     (contents (out0 ! nat (field_page_num f)))
                   @ [OverlayContent (label (mediabox_height (src ! nat (field_page_num f))))]
                   @ drop (length (contents (src ! nat (field_page_num f)))
                           + length (filter (\<lambda>g. field_page_num g = field_page_num f) xs))
                       (contents (out0 ! nat (field_page_num f)))\<rparr>]))"
proof -
  define n where "n = field_page_num f"
  define j where "j = nat n"
  define pre where "pre = take j src"
  define p where "p = src ! j"
  define post where "post = drop (Suc j) src"
  define m where "m = group_fields (xs @ ys) Map.empty"
  define m' where "m' = group_fields (xs @ f # ys) Map.empty"
  define fs where "fs = filter (\<lambda>g. field_page_num g = n) xs"
  define gs where "gs = filter (\<lambda>g. field_page_num g = n) ys"
  have j: "j < length src" "int j = n"
    using range by (simp_all add: j_def n_def)
  have src: "src = pre @ p # post"
    unfolding pre_def p_def post_def using j(1) by (rule id_take_nth_drop)
  have len_pre: "length pre = j"
    using j(1) by (simp add: pre_def)
  have agree: "m' k = m k" if "k \<noteq> n" for k
    using that by (simp add: m_def m'_def group_fields_lookup n_def)
  have at_m: "(case m n of None \<Rightarrow> [] | Some l \<Rightarrow> l) = fs @ gs"
    by (simp add: m_def group_fields_on_page fs_def gs_def)
  have at_m': "(case m' n of None \<Rightarrow> [] | Some l \<Rightarrow> l) = fs @ f # gs"
    by (simp add: m'_def group_fields_on_page fs_def gs_def n_def)
  have pre_eq: "process_pages E m' w 0 pre [] = process_pages E m w 0 pre []"
  proof (rule process_pages_cong)
    fix i assume "i < length pre"
    then have "0 + int i \<noteq> n" using len_pre j(2) by simp
    then show "m' (0 + int i) = m (0 + int i)" by (rule agree)
  qed
  obtain w1 o1 where pre_run: "process_pages E m w 0 pre [] = (w1, o1)"
    by (cases "process_pages E m w 0 pre []")
  have len_o1: "length o1 = j"
    using process_pages_shape [of E m w 0 pre "[]"] pre_run len_pre by auto
  obtain W p2 where
    merge: "merge_overlays E w1 p (mediabox_width p) (mediabox_height p) (fs @ gs) = (W, p2)"
    and merge': "merge_overlays E w1 p (mediabox_width p) (mediabox_height p) (fs @ f # gs) =
       (W, p2\<lparr>contents :=
               take (length (contents p) + length fs) (contents p2)
               @ [OverlayContent (label (mediabox_height p))]
               @ drop (length (contents p) + length fs) (contents p2)\<rparr>)"
    using merge_overlays_failed_field [of E f "mediabox_width p" "mediabox_height p"
            "label (mediabox_height p)" w1 p fs gs] co
    by blast
  define p2' where "p2' = p2\<lparr>contents :=
               take (length (contents p) + length fs) (contents p2)
               @ [OverlayContent (label (mediabox_height p))]
               @ drop (length (contents p) + length fs) (contents p2)\<rparr>"
  define X where "X = process_pages E m W (n + 1) post []"
  have post_eq: "process_pages E m' W (n + 1) post out = process_pages E m W (n + 1) post out"
    for out
  proof (rule process_pages_cong)
    fix i assume "i < length post"
    have "n + 1 + int i \<noteq> n" by simp
    then show "m' (n + 1 + int i) = m (n + 1 + int i)" by (rule agree)
  qed
  have run: "process_pages E m w 0 src [] = (fst X, o1 @ p2 # snd X)"
  proof -
    have "process_pages E m w 0 src [] = process_pages E m w1 n (p # post) o1"
      by (simp add: src process_pages_append pre_run len_pre j(2) del: process_pages.simps)
    also have "\<dots> = process_pages E m W (n + 1) post (o1 @ [p2])"
      by (simp only: process_pages_step at_m merge prod.case)
    also have "\<dots> = (fst X, (o1 @ [p2]) @ snd X)"
      unfolding X_def by (rule process_pages_out)
    finally show ?thesis by simp
  qed
  have run': "process_pages E m' w 0 src [] = (fst X, o1 @ p2' # snd X)"
  proof -
    have "process_pages E m' w 0 src [] = process_pages E m' w1 n (p # post) o1"
      by (simp add: src process_pages_append pre_eq pre_run len_pre j(2) del: process_pages.simps)
    also have "\<dots> = process_pages E m' W (n + 1) post (o1 @ [p2'])"
      by (simp only: process_pages_step at_m' merge' prod.case p2'_def)
    also have "\<dots> = process_pages E m W (n + 1) post (o1 @ [p2'])"
      by (rule post_eq)
    also have "\<dots> = (fst X, (o1 @ [p2']) @ snd X)"
      unfolding X_def by (rule process_pages_out)
    finally show ?thesis by simp
  qed
  have nth: "(o1 @ p2 # snd X) ! j = p2"
    using len_o1 by (simp add: nth_append)
  have upd: "(o1 @ p2 # snd X)[j := p2'] = o1 @ p2' # snd X"
    using len_o1 by (simp add: list_update_append)
  have a: "fill_pdf E w url (xs @ ys) = (fst X, Inr (o1 @ p2 # snd X))"
    by (simp add: fill_pdf_returns [OF load] run [unfolded m_def])
  have "fill_pdf E w url (xs @ f # ys) = (fst X, Inr (o1 @ p2' # snd X))"
    by (simp add: fill_pdf_returns [OF load] run' [unfolded m'_def])
  then have b: "fill_pdf E w url (xs @ f # ys) =
      (fst X, Inr ((o1 @ p2 # snd X)[j :=
         ((o1 @ p2 # snd X) ! j)\<lparr>contents :=
            take (length (contents p) + length fs) (contents ((o1 @ p2 # snd X) ! j))
            @ [OverlayContent (label (mediabox_height p))]
            @ drop (length (contents p) + length fs) (contents ((o1 @ p2 # snd X) ! j))\<rparr>]))"
    by (simp only: nth upd p2'_def [symmetric])
  show ?thesis
    unfolding n_def [symmetric] j_def [symmetric] fs_def [symmetric] p_def [symmetric]
    using a b by blast
qed

text \<open>What a successful \<open>upload_to_supabase\<close> has done.\<close>

lemma length_strftime_Ymd_HMS: "length (strftime_Ymd_HMS d) = 15"
  by (simp add: strftime_Ymd_HMS_def)

lemma upload_to_supabase_ok:
  assumes "upload_to_supabase E w self pdf_data filename bucket = (w', Inr public_url)"
  shows "clock_reads w' = Suc (clock_reads w)"
    and "posts w' = posts w @
           [(client_url self @ ''/storage/v1/object/'' @ format_bucket bucket @ ''/''
               @ ''filled_'' @ strftime_Ymd_HMS (datetime_now E (clock_reads w)) @ ''_'' @ filename,
             [(''Authorization'', ''Bearer '' @ client_key self),
              (''Content-Type'', ''application/pdf'')],
             pdf_data)]"
    and "public_url = client_url self @ ''/storage/v1/object/public/'' @ format_bucket bucket @ ''/''
               @ ''filled_'' @ strftime_Ymd_HMS (datetime_now E (clock_reads w)) @ ''_'' @ filename"
  using assms
  by (auto simp: upload_to_supabase_def upload_def get_public_url_def Let_def
           split: sum.splits option.splits if_splits)

text \<open>
  A storage service that answers every upload with 200 or 201 and a JSON body: the
  upload succeeds, and so does the request once the document is filled.
\<close>

lemma upload_to_supabase_accepted:
  assumes store: "\<And>u d h. \<exists>r. requests_post E u d h = Inr r
                    \<and> resp_status_code r \<in> {200, 201} \<and> resp_json r \<noteq> None"
  shows "\<exists>w2 public_url u h.
           upload_to_supabase E w self pdf_data filename bucket = (w2, Inr public_url)
           \<and> last (posts w2) = (u, h, pdf_data)"
proof -
  obtain r j where
    "requests_post E
       (client_url self @ ''/storage/v1/object/'' @ format_bucket bucket @ ''/''
          @ ''filled_'' @ strftime_Ymd_HMS (datetime_now E (clock_reads w)) @ ''_'' @ filename)
       pdf_data
       [(''Authorization'', ''Bearer '' @ client_key self),
        (''Content-Type'', ''application/pdf'')] = Inr r"
    and "resp_status_code r = 200 \<or> resp_status_code r = 201" and "resp_json r = Some j"
    using store by fastforce
  then show ?thesis
    by (auto simp: upload_to_supabase_def upload_def Let_def)
qed

lemma fill_pdf_endpoint_success:
  assumes config: "SUPABASE_URL E \<noteq> []" "SUPABASE_KEY E \<noteq> []"
    and fill: "fill_pdf E w url fs = (w1, Inr out)"
    and store: "\<And>u d h. \<exists>r. requests_post E u d h = Inr r
                    \<and> resp_status_code r \<in> {200, 201} \<and> resp_json r \<noteq> None"
  shows "\<exists>w2 resp u h.
           fill_pdf_endpoint E w
             \<lparr>req_pdf_url = url, req_fields = fs, req_filename = filename, req_bucket = bucket\<rparr>
             = (w2, Inr resp)
           \<and> res_success resp = True \<and> last (posts w2) = (u, h, out)"
proof -
  obtain w2 public_url u h where
    "upload_to_supabase E w1 (SupabaseStorageClient_init (SUPABASE_URL E) (SUPABASE_KEY E))
       out filename bucket = (w2, Inr public_url)"
    and "last (posts w2) = (u, h, out)"
    using upload_to_supabase_accepted [OF store] by blast
  then show ?thesis
    using config fill by (simp add: fill_pdf_endpoint_def)
qed

subsection \<open>The concrete run, evaluated\<close>

lemma example_load:
  "download_file example_env ''http://files/source.pdf'' = Inr [37, 80, 68, 70]"
  "PdfReader example_env [37, 80, 68, 70] = Inr example_doc"
  by (simp_all add: download_file_def example_env_def example_get_def)

lemma example_fill:
  "fill_pdf example_env example_world ''http://files/source.pdf''
     [example_field 0 ''text'' ''Jane Doe'', example_field 2 ''signature'' ''http://files/sig.png'']
   = (\<lparr>files = {}, clock_reads = 1, posts = []\<rparr>,
      Inr [\<lparr>mediabox_width = 612, mediabox_height = 792,
             contents = [SourceContent [1],
                         OverlayContent [SetFont ''Helvetica'' 12, DrawString 53 678 ''Jane Doe'']]\<rparr>,
           example_page [2],
           \<lparr>mediabox_width = 612, mediabox_height = 792,
             contents = [SourceContent [3],
                         OverlayContent [DrawImage (Image [137, 80, 78, 71]) 52 674 196 16]]\<rparr>])"
  by (simp add: fill_pdf_def example_load example_doc_def example_page_def example_field_def
        Let_def domIff create_overlay_def image_branch_def is_signature_def startswith_def
        try_signature_def text_font_size_def convert_anvil_coordinates_def canvas_save_def
        merge_page_def example_world_def)
     (simp add: example_env_def example_get_def download_file_def)

lemma example_fill_missing:
  "fill_pdf example_env example_world ''http://files/source.pdf''
     [example_field 0 ''signature'' ''http://files/missing.png'', example_field 0 ''text'' ''Jane Doe'']
   = (example_world,
      Inr [\<lparr>mediabox_width = 612, mediabox_height = 792,
             contents = [SourceContent [1],
                         OverlayContent [SetFont ''Helvetica'' 10, DrawString 52 682 ''[Signature Error]''],
                         OverlayContent [SetFont ''Helvetica'' 12, DrawString 53 678 ''Jane Doe'']]\<rparr>,
           example_page [2], example_page [3]])"
  by (simp add: fill_pdf_def example_load example_doc_def example_page_def example_field_def
        Let_def domIff create_overlay_def image_branch_def is_signature_def startswith_def
        try_signature_def text_font_size_def convert_anvil_coordinates_def canvas_save_def
        merge_page_def)
     (simp add: example_env_def example_get_def download_file_def)

lemma example_endpoint:
  "fill_pdf_endpoint example_env example_world
     example_request
   = (\<lparr>files = {}, clock_reads = 2,
       posts = [(''https://store.example/storage/v1/object/finishpdf/filled_20261104_090501_form.pdf'',
                 [(''Authorization'', ''Bearer k''), (''Content-Type'', ''application/pdf'')],
                 [\<lparr>mediabox_width = 612, mediabox_height = 792,
                    contents = [SourceContent [1],
                      OverlayContent [SetFont ''Helvetica'' 12, DrawString 53 678 ''Jane Doe'']]\<rparr>,
                  example_page [2],
                  \<lparr>mediabox_width = 612, mediabox_height = 792,
                    contents = [SourceContent [3],
                      OverlayContent [DrawImage (Image [137, 80, 78, 71]) 52 674 196 16]]\<rparr>])]\<rparr>,
      Inr \<lparr>res_success = True,
           res_message = ''PDF '' @ [CHR 0xE5, CHR 0xA1, CHR 0xAB, CHR 0xE5, CHR 0xAF, CHR 0xAB,
                                    CHR 0xE6, CHR 0x88, CHR 0x90, CHR 0xE5, CHR 0x8A, CHR 0x9F],
           res_pdf_url = Some ''https://store.example/storage/v1/object/public/finishpdf/filled_20261104_090501_form.pdf'',
           res_filename = Some ''form.pdf''\<rparr>)"
  by (simp add: fill_pdf_endpoint_def example_request_def example_fill upload_to_supabase_def upload_def
        get_public_url_def SupabaseStorageClient_init_def rstrip_slash_def format_bucket_def
        strftime_Ymd_HMS_def digit_def Let_def)
     (simp add: example_env_def example_post_def)

lemma example_endpoint_missing:
  "fill_pdf_endpoint example_env example_world
     \<lparr>req_pdf_url = ''http://files/source.pdf'',
      req_fields = [] @ example_field 0 ''signature'' ''http://files/missing.png''
                      # [example_field 0 ''text'' ''Jane Doe''],
      req_filename = ''form.pdf'', req_bucket = Some ''finishpdf''\<rparr>
   = (\<lparr>files = {}, clock_reads = 1,
       posts = [(''https://store.example/storage/v1/object/finishpdf/filled_20261104_090500_form.pdf'',
                 [(''Authorization'', ''Bearer k''), (''Content-Type'', ''application/pdf'')],
                 [\<lparr>mediabox_width = 612, mediabox_height = 792,
                    contents = [SourceContent [1],
                      OverlayContent [SetFont ''Helvetica'' 10, DrawString 52 682 ''[Signature Error]''],
                      OverlayContent [SetFont ''Helvetica'' 12, DrawString 53 678 ''Jane Doe'']]\<rparr>,
                  example_page [2], example_page [3]])]\<rparr>,
      Inr \<lparr>res_success = True,
           res_message = ''PDF '' @ [CHR 0xE5, CHR 0xA1, CHR 0xAB, CHR 0xE5, CHR 0xAF, CHR 0xAB,
                                    CHR 0xE6, CHR 0x88, CHR 0x90, CHR 0xE5, CHR 0x8A, CHR 0x9F],
           res_pdf_url = Some ''https://store.example/storage/v1/object/public/finishpdf/filled_20261104_090500_form.pdf'',
           res_filename = Some ''form.pdf''\<rparr>)"
  using example_fill_missing
  by (simp add: fill_pdf_endpoint_def upload_to_supabase_def upload_def
        get_public_url_def SupabaseStorageClient_init_def rstrip_slash_def format_bucket_def
        strftime_Ymd_HMS_def digit_def Let_def example_world_def)
     (simp add: example_env_def example_post_def)

subsection \<open>The claims on documents, uploads and requests\<close>

text \<open>
  C4. Whenever the source document can be fetched and decoded, \<open>fill_pdf\<close> returns a
  document, for every list of instructions, and it has as many pages as the source.
\<close>

theorem C4_page_count:
  assumes "download_file E pdf_url = Inr pdf_bytes" and "PdfReader E pdf_bytes = Inr src"
  shows "\<exists>w' out. fill_pdf E w pdf_url fields_data = (w', Inr out) \<and> length out = length src"
proof -
  obtain ps where "snd (process_pages E (group_fields fields_data Map.empty) w 0 src []) = [] @ ps"
    and "length ps = length src"
    using process_pages_shape [of E "group_fields fields_data Map.empty" w 0 src "[]"] by blast
  then show ?thesis
    by (simp add: fill_pdf_returns [OF assms])
qed

text \<open>C4 on the three-page document, with instructions for the pages 0 and 2.\<close>

theorem C4_page_count_witness:
  "download_file example_env ''http://files/source.pdf'' = Inr [37, 80, 68, 70]
   \<and> PdfReader example_env [37, 80, 68, 70] = Inr example_doc
   \<and> length example_doc = 3
   \<and> (\<exists>w' out. fill_pdf example_env example_world ''http://files/source.pdf''
          [example_field 0 ''text'' ''Jane Doe'',
           example_field 2 ''signature'' ''http://files/sig.png''] = (w', Inr out)
        \<and> length out = 3)"
proof -
  have len: "length example_doc = 3"
    by (simp add: example_doc_def)
  show ?thesis
    using C4_page_count [OF example_load, of example_world
            "[example_field 0 ''text'' ''Jane Doe'',
              example_field 2 ''signature'' ''http://files/sig.png'']"]
    by (simp add: example_load len)
qed

text \<open>
  C5. A page of the source document that no instruction targets is the same page,
  media box and content streams, in the output.
\<close>

theorem C5_untargeted_page_unchanged:
  assumes "download_file E pdf_url = Inr pdf_bytes" and "PdfReader E pdf_bytes = Inr src"
    and i: "i < length src"
    and untargeted: "\<forall>f \<in> set fields_data. field_page_num f \<noteq> int i"
  shows "\<exists>w' out. fill_pdf E w pdf_url fields_data = (w', Inr out) \<and> out ! i = src ! i"
proof -
  have "filter (\<lambda>f. field_page_num f = int i) fields_data = []"
    using untargeted by (simp add: filter_empty_conv)
  then have none: "group_fields fields_data Map.empty (0 + int i) = None"
    by (simp add: group_fields_lookup)
  obtain ps where "snd (process_pages E (group_fields fields_data Map.empty) w 0 src []) = [] @ ps"
    and "\<forall>j<length src. group_fields fields_data Map.empty (0 + int j) = None \<longrightarrow> ps ! j = src ! j"
    using process_pages_shape [of E "group_fields fields_data Map.empty" w 0 src "[]"] by blast
  with i none show ?thesis
    by (simp add: fill_pdf_returns [OF assms(1,2)])
qed

text \<open>C5 on the three-page document: page 1 is not targeted and passes through.\<close>

theorem C5_untargeted_page_unchanged_witness:
  "download_file example_env ''http://files/source.pdf'' = Inr [37, 80, 68, 70]
   \<and> PdfReader example_env [37, 80, 68, 70] = Inr example_doc
   \<and> (1::nat) < length example_doc
   \<and> map field_page_num [example_field 0 ''text'' ''Jane Doe'',
                           example_field 2 ''signature'' ''http://files/sig.png''] = [0, 2]
   \<and> (\<exists>w' out. fill_pdf example_env example_world ''http://files/source.pdf''
          [example_field 0 ''text'' ''Jane Doe'',
           example_field 2 ''signature'' ''http://files/sig.png''] = (w', Inr out)
        \<and> out ! 1 = example_page [2])"
proof -
  have i: "(1::nat) < length example_doc"
    by (simp add: example_doc_def)
  have u: "\<forall>f \<in> set [example_field 0 ''text'' ''Jane Doe'',
                     example_field 2 ''signature'' ''http://files/sig.png'']. field_page_num f \<noteq> int 1"
    by (simp add: example_field_def)
  have n: "example_doc ! 1 = example_page [2]"
    by (simp add: example_doc_def)
  have m: "map field_page_num [example_field 0 ''text'' ''Jane Doe'',
                                 example_field 2 ''signature'' ''http://files/sig.png''] = [0, 2]"
    by (simp add: example_field_def)
  show ?thesis
    using C5_untargeted_page_unchanged [OF example_load i u, of example_world] i m n
    by (simp add: example_load)
qed

text \<open>
  C6. For a field whose answer starts with \<open>http\<close>: when the download or the decoding
  of the image fails, \<open>create_overlay\<close> returns normally, the world unchanged, with the
  label \<open>[Signature Error]\<close> in Helvetica 10 at \<open>x + 2\<close> and at mid-height of the
  rectangle; the label is the overlay also when the image cannot be staged or drawn.
  In a run on a document that loads, the field's page then carries the label, after
  the overlays of the fields before it, and everything else (every other page, every
  other overlay, the effects) is as in the run without the field. And when the storage
  is configured and accepts uploads, the request succeeds, with the document that
  carries the label as the uploaded one.
\<close>

theorem C6_signature_error_label:
  assumes http: "startswith (field_answer f) ''http''"
  shows "(fetch_or_decode_fails E (field_answer f) \<longrightarrow>
            create_overlay E w f pw ph = (w, canvas_save pw ph (signature_error_label f ph)))
         \<and> (\<forall>img_data img.
               download_file E (field_answer f) = Inr img_data \<longrightarrow>
               Image_open E img_data = Inr img \<longrightarrow>
               \<not> (Image_save E img
                    (''temp_sig_'' @ timestamp_str E (datetime_now E (clock_reads w)) @ ''.png'')
                  \<and> drawImage_ok E img) \<longrightarrow>
               snd (create_overlay E w f pw ph) = canvas_save pw ph (signature_error_label f ph))
         \<and> (fetch_or_decode_fails E (field_answer f) \<longrightarrow>
            download_file E pdf_url = Inr pdf_bytes \<longrightarrow> PdfReader E pdf_bytes = Inr src \<longrightarrow>
            0 \<le> field_page_num f \<longrightarrow> field_page_num f < int (length src) \<longrightarrow>
            (\<exists>w' out0.
               fill_pdf E w pdf_url (xs @ ys) = (w', Inr out0)
               \<and> fill_pdf E w pdf_url (xs @ f # ys) =
                   (w', Inr (out0[nat (field_page_num f) :=
                      (out0 ! nat (field_page_num f))\<lparr>contents :=
                         take (length (contents (src ! nat (field_page_num f)))
                               + length (filter (\<lambda>g. field_page_num g = field_page_num f) xs))
                           (contents (out0 ! nat (field_page_num f)))
                         @ [OverlayContent
                              (signature_error_label f
                                 (mediabox_height (src ! nat (field_page_num f))))]
                         @ drop (length (contents (src ! nat (field_page_num f)))
                                 + length (filter (\<lambda>g. field_page_num g = field_page_num f) xs))
                             (contents (out0 ! nat (field_page_num f)))\<rparr>]))
               \<and> (SUPABASE_URL E \<noteq> [] \<longrightarrow> SUPABASE_KEY E \<noteq> [] \<longrightarrow>
                  (\<forall>u d h. \<exists>r. requests_post E u d h = Inr r
                      \<and> resp_status_code r \<in> {200, 201} \<and> resp_json r \<noteq> None) \<longrightarrow>
                  (\<exists>w'' resp u h.
                     fill_pdf_endpoint E w
                       \<lparr>req_pdf_url = pdf_url, req_fields = xs @ f # ys,
                        req_filename = filename, req_bucket = bucket\<rparr> = (w'', Inr resp)
                     \<and> res_success resp = True
                     \<and> fill_pdf E w pdf_url (xs @ f # ys) = (w', Inr (snd (snd (last (posts w'')))))))))"
proof (intro conjI impI allI)
  assume "fetch_or_decode_fails E (field_answer f)"
  then show "create_overlay E w f pw ph = (w, canvas_save pw ph (signature_error_label f ph))"
    using http by (rule create_overlay_fetch_or_decode_fails [rotated])
next
  fix img_data img
  assume "download_file E (field_answer f) = Inr img_data" "Image_open E img_data = Inr img"
    "\<not> (Image_save E img
          (''temp_sig_'' @ timestamp_str E (datetime_now E (clock_reads w)) @ ''.png'')
        \<and> drawImage_ok E img)"
  then show "snd (create_overlay E w f pw ph) = canvas_save pw ph (signature_error_label f ph)"
    using create_overlay_image [OF http, of E w pw ph] by auto
next
  assume fails: "fetch_or_decode_fails E (field_answer f)"
    and load: "download_file E pdf_url = Inr pdf_bytes" "PdfReader E pdf_bytes = Inr src"
    and range: "0 \<le> field_page_num f" "field_page_num f < int (length src)"
  have co: "\<And>w pw ph. create_overlay E w f pw ph
              = (w, canvas_save pw ph (signature_error_label f ph))"
    using http fails by (rule create_overlay_fetch_or_decode_fails)
  obtain w' out0 where
    a: "fill_pdf E w pdf_url (xs @ ys) = (w', Inr out0)"
    and b: "fill_pdf E w pdf_url (xs @ f # ys) =
                   (w', Inr (out0[nat (field_page_num f) :=
                      (out0 ! nat (field_page_num f))\<lparr>contents :=
                         take (length (contents (src ! nat (field_page_num f)))
                               + length (filter (\<lambda>g. field_page_num g = field_page_num f) xs))
                           (contents (out0 ! nat (field_page_num f)))
                         @ [OverlayContent
                              (signature_error_label f
                                 (mediabox_height (src ! nat (field_page_num f))))]
                         @ drop (length (contents (src ! nat (field_page_num f)))
                                 + length (filter (\<lambda>g. field_page_num g = field_page_num f) xs))
                             (contents (out0 ! nat (field_page_num f)))\<rparr>]))"
    using fill_pdf_failed_field [OF load range, of "signature_error_label f" w xs ys] co
    by blast
  have c: "\<exists>w'' resp u h.
             fill_pdf_endpoint E w
               \<lparr>req_pdf_url = pdf_url, req_fields = xs @ f # ys,
                req_filename = filename, req_bucket = bucket\<rparr> = (w'', Inr resp)
             \<and> res_success resp = True
             \<and> fill_pdf E w pdf_url (xs @ f # ys) = (w', Inr (snd (snd (last (posts w'')))))"
    if config: "SUPABASE_URL E \<noteq> []" "SUPABASE_KEY E \<noteq> []"
      and store: "\<forall>u d h. \<exists>r. requests_post E u d h = Inr r
                      \<and> resp_status_code r \<in> {200, 201} \<and> resp_json r \<noteq> None"
  proof -
    from store have store': "\<And>u d h. \<exists>r. requests_post E u d h = Inr r
                      \<and> resp_status_code r \<in> {200, 201} \<and> resp_json r \<noteq> None"
      by blast
    from fill_pdf_endpoint_success [OF config b store', of filename bucket]
    obtain w'' resp u h where
      "fill_pdf_endpoint E w
         \<lparr>req_pdf_url = pdf_url, req_fields = xs @ f # ys,
          req_filename = filename, req_bucket = bucket\<rparr> = (w'', Inr resp)"
      "res_success resp = True"
      "last (posts w'') = (u, h, out0[nat (field_page_num f) :=
                      (out0 ! nat (field_page_num f))\<lparr>contents :=
                         take (length (contents (src ! nat (field_page_num f)))
                               + length (filter (\<lambda>g. field_page_num g = field_page_num f) xs))
                           (contents (out0 ! nat (field_page_num f)))
                         @ [OverlayContent
                              (signature_error_label f
                                 (mediabox_height (src ! nat (field_page_num f))))]
                         @ drop (length (contents (src ! nat (field_page_num f)))
                                 + length (filter (\<lambda>g. field_page_num g = field_page_num f) xs))
                             (contents (out0 ! nat (field_page_num f)))\<rparr>])"
      by blast
    with b show ?thesis by (intro exI [of _ w''] exI [of _ resp]) simp
  qed
  show "\<exists>w' out0.
               fill_pdf E w pdf_url (xs @ ys) = (w', Inr out0)
               \<and> fill_pdf E w pdf_url (xs @ f # ys) =
                   (w', Inr (out0[nat (field_page_num f) :=
                      (out0 ! nat (field_page_num f))\<lparr>contents :=
                         take (length (contents (src ! nat (field_page_num f)))
                               + length (filter (\<lambda>g. field_page_num g = field_page_num f) xs))
                           (contents (out0 ! nat (field_page_num f)))
                         @ [OverlayContent
                              (signature_error_label f
                                 (mediabox_height (src ! nat (field_page_num f))))]
                         @ drop (length (contents (src ! nat (field_page_num f)))
                                 + length (filter (\<lambda>g. field_page_num g = field_page_num f) xs))
                             (contents (out0 ! nat (field_page_num f)))\<rparr>]))
               \<and> (SUPABASE_URL E \<noteq> [] \<longrightarrow> SUPABASE_KEY E \<noteq> [] \<longrightarrow>
                  (\<forall>u d h. \<exists>r. requests_post E u d h = Inr r
                      \<and> resp_status_code r \<in> {200, 201} \<and> resp_json r \<noteq> None) \<longrightarrow>
                  (\<exists>w'' resp u h.
                     fill_pdf_endpoint E w
                       \<lparr>req_pdf_url = pdf_url, req_fields = xs @ f # ys,
                        req_filename = filename, req_bucket = bucket\<rparr> = (w'', Inr resp)
                     \<and> res_success resp = True
                     \<and> fill_pdf E w pdf_url (xs @ f # ys) = (w', Inr (snd (snd (last (posts w'')))))))"
    apply (rule exI [of _ w'], rule exI [of _ out0], intro conjI impI)
      apply (rule a)
     apply (rule b)
    apply (rule c; assumption)
    done
qed

text \<open>
  C6 at a signature whose URL answers 404, followed on the same page by a text field:
  the label and the text are both on page 0 and the request reports success. The image
  behind \<open>odd.png\<close>, which cannot be drawn, gives the label as well.
\<close>

theorem C6_signature_error_label_witness:
  "startswith ''http://files/missing.png'' ''http''
   \<and> fetch_or_decode_fails example_env ''http://files/missing.png''
   \<and> create_overlay example_env example_world
        (example_field 0 ''signature'' ''http://files/missing.png'') 612 792
      = (example_world,
         canvas_save 612 792 [SetFont ''Helvetica'' 10, DrawString 52 682 ''[Signature Error]''])
   \<and> snd (create_overlay example_env example_world
            (example_field 0 ''signature'' ''http://files/odd.png'') 612 792)
      = canvas_save 612 792 [SetFont ''Helvetica'' 10, DrawString 52 682 ''[Signature Error]'']
   \<and> fill_pdf example_env example_world ''http://files/source.pdf''
        [example_field 0 ''signature'' ''http://files/missing.png'',
         example_field 0 ''text'' ''Jane Doe'']
      = (example_world,
         Inr [\<lparr>mediabox_width = 612, mediabox_height = 792,
                contents = [SourceContent [1],
                  OverlayContent [SetFont ''Helvetica'' 10, DrawString 52 682 ''[Signature Error]''],
                  OverlayContent [SetFont ''Helvetica'' 12, DrawString 53 678 ''Jane Doe'']]\<rparr>,
              example_page [2], example_page [3]])
   \<and> res_success (projr (snd (fill_pdf_endpoint example_env example_world
        \<lparr>req_pdf_url = ''http://files/source.pdf'',
         req_fields = [example_field 0 ''signature'' ''http://files/missing.png'',
                       example_field 0 ''text'' ''Jane Doe''],
         req_filename = ''form.pdf'', req_bucket = Some ''finishpdf''\<rparr>))) = True"
proof -
  have h: "startswith (field_answer (example_field 0 ''signature'' ''http://files/missing.png'')) ''http''"
    by (simp add: startswith_def example_field_def)
  have h': "startswith (field_answer (example_field 0 ''signature'' ''http://files/odd.png'')) ''http''"
    by (simp add: startswith_def example_field_def)
  have fails: "fetch_or_decode_fails example_env ''http://files/missing.png''"
    by (simp add: fetch_or_decode_fails_def download_file_def example_env_def example_get_def)
  have odd: "download_file example_env ''http://files/odd.png'' = Inr [73, 73, 42, 0]"
    "Image_open example_env [73, 73, 42, 0] = Inr (Image [73, 73, 42, 0])"
    "\<not> drawImage_ok example_env (Image [73, 73, 42, 0])"
    by (simp_all add: download_file_def example_env_def example_get_def)
  have label: "create_overlay example_env example_world
        (example_field 0 ''signature'' ''http://files/missing.png'') 612 792
      = (example_world,
         canvas_save 612 792 [SetFont ''Helvetica'' 10, DrawString 52 682 ''[Signature Error]''])"
    using C6_signature_error_label [OF h, of example_env example_world 612 792] fails
    by (simp add: example_field_def convert_anvil_coordinates_def)
  have label': "snd (create_overlay example_env example_world
            (example_field 0 ''signature'' ''http://files/odd.png'') 612 792)
      = canvas_save 612 792 [SetFont ''Helvetica'' 10, DrawString 52 682 ''[Signature Error]'']"
    using C6_signature_error_label [OF h', of example_env example_world 612 792] odd
    by (simp add: example_field_def convert_anvil_coordinates_def)
  show ?thesis
    using label label' fails example_endpoint_missing
    by (simp add: example_fill_missing startswith_def)
qed

text \<open>
  C8. An instruction whose page number is negative or not below the page count of
  the source document is dropped: the run, its result and its effects, is that of the
  list without the instruction.
\<close>

theorem C8_out_of_range_dropped:
  assumes "download_file E pdf_url = Inr pdf_bytes" and "PdfReader E pdf_bytes = Inr src"
    and invalid: "field_page_num f < 0 \<or> int (length src) \<le> field_page_num f"
  shows "fill_pdf E w pdf_url (xs @ f # ys) = fill_pdf E w pdf_url (xs @ ys)"
proof -
  have "process_pages E (group_fields (xs @ f # ys) Map.empty) w 0 src []
      = process_pages E (group_fields (xs @ ys) Map.empty) w 0 src []"
  proof (rule process_pages_cong)
    fix j assume "j < length src"
    with invalid have "field_page_num f \<noteq> 0 + int j" by auto
    then show "group_fields (xs @ f # ys) Map.empty (0 + int j)
             = group_fields (xs @ ys) Map.empty (0 + int j)"
      by (simp add: group_fields_lookup)
  qed
  then show ?thesis
    by (simp add: fill_pdf_returns [OF assms(1,2)])
qed

text \<open>
  C8 on the three-page document with an instruction for page 3: its image, which would
  leave a file behind, is never fetched.
\<close>

theorem C8_out_of_range_dropped_witness:
  "download_file example_env ''http://files/source.pdf'' = Inr [37, 80, 68, 70]
   \<and> PdfReader example_env [37, 80, 68, 70] = Inr example_doc
   \<and> int (length example_doc) \<le> field_page_num (example_field 3 ''signature'' ''http://files/odd.png'')
   \<and> fill_pdf example_env example_world ''http://files/source.pdf''
       ([example_field 0 ''text'' ''Jane Doe'']
        @ example_field 3 ''signature'' ''http://files/odd.png''
        # [example_field 2 ''signature'' ''http://files/sig.png''])
     = fill_pdf example_env example_world ''http://files/source.pdf''
       ([example_field 0 ''text'' ''Jane Doe'']
        @ [example_field 2 ''signature'' ''http://files/sig.png''])"
proof -
  have inv: "field_page_num (example_field 3 ''signature'' ''http://files/odd.png'') < 0
             \<or> int (length example_doc)
                 \<le> field_page_num (example_field 3 ''signature'' ''http://files/odd.png'')"
    by (simp add: example_doc_def example_field_def)
  have le: "int (length example_doc)
              \<le> field_page_num (example_field 3 ''signature'' ''http://files/odd.png'')"
    by (simp add: example_doc_def example_field_def)
  show ?thesis
    using C8_out_of_range_dropped [OF example_load inv, of example_world
            "[example_field 0 ''text'' ''Jane Doe'']"
            "[example_field 2 ''signature'' ''http://files/sig.png'']"] le
    by (simp add: example_load)
qed

text \<open>
  C9, as the code has it. When the storage service responds, \<open>upload\<close> raises its
  \<open>Upload failed\<close> error exactly when the status is neither 200 nor 201; on 200 and 201
  it returns the decoded JSON body, and raises the decoder's error when there is none.
\<close>

theorem C9_upload_status:
  assumes "requests_post E
             (client_url self @ ''/storage/v1/object/'' @ format_bucket bucket @ ''/'' @ path)
             file_data
             [(''Authorization'', ''Bearer '' @ client_key self),
              (''Content-Type'', ''application/pdf'')] = Inr response"
  shows "(snd (upload E w self bucket path file_data) = Inl (UploadFailed (resp_text response))
            \<longleftrightarrow> resp_status_code response \<notin> {200, 201})
         \<and> (resp_status_code response \<in> {200, 201} \<longrightarrow>
              snd (upload E w self bucket path file_data) =
                (case resp_json response of None \<Rightarrow> Inl JSONDecodeError | Some j \<Rightarrow> Inr j))"
  using assms by (auto simp: upload_def Let_def split: option.splits)

text \<open>C9 at a response 200 with a JSON body and at a response 500.\<close>

theorem C9_upload_status_witness:
  "snd (upload example_env example_world
          (SupabaseStorageClient_init ''https://store.example/'' ''k'') (Some ''finishpdf'')
          ''filled.pdf'' example_doc) = Inr ''{}''
   \<and> snd (upload (example_env\<lparr>requests_post := example_post 500 None\<rparr>) example_world
          (SupabaseStorageClient_init ''https://store.example/'' ''k'') (Some ''finishpdf'')
          ''filled.pdf'' example_doc) = Inl (UploadFailed ''ack'')"
  using C9_upload_status [of example_env "SupabaseStorageClient_init ''https://store.example/'' ''k''"
          "Some ''finishpdf''" "''filled.pdf''" example_doc
          "\<lparr>resp_status_code = 200, resp_content = [], resp_text = ''ack'', resp_json = Some ''{}''\<rparr>"
          example_world]
        C9_upload_status [of "example_env\<lparr>requests_post := example_post 500 None\<rparr>"
          "SupabaseStorageClient_init ''https://store.example/'' ''k''"
          "Some ''finishpdf''" "''filled.pdf''" example_doc
          "\<lparr>resp_status_code = 500, resp_content = [], resp_text = ''ack'', resp_json = None\<rparr>"
          example_world]
  by (simp add: example_env_def example_post_def)

text \<open>C9 as stated fails: the status 204 is a 2xx status, and the upload raises.\<close>

theorem C9_counterexample:
  "spec_2xx 204 \<and>
   snd (upload (example_env\<lparr>requests_post := example_post 204 (Some ''{}'')\<rparr>) example_world
          (SupabaseStorageClient_init ''https://store.example/'' ''k'') (Some ''finishpdf'')
          ''filled.pdf'' example_doc)
     = Inl (UploadFailed ''ack'')"
  by (simp add: spec_2xx_def upload_def example_post_def Let_def)

text \<open>
  C10. On a successful request the response's \<open>filename\<close> is the caller's, unchanged;
  the object is posted under \<open>filled_\<close>, the fifteen characters of the timestamp, \<open>_\<close>
  and the caller's filename, the returned \<open>pdf_url\<close> is the public URL of that name, and
  the \<open>filename\<close> of the response is never that name.
\<close>

theorem C10_response_filename:
  assumes ok: "fill_pdf_endpoint E w request = (w', Inr resp)"
  shows "res_filename resp = Some (req_filename request)
         \<and> posts w' \<noteq> []
         \<and> fst (last (posts w')) =
             rstrip_slash (SUPABASE_URL E) @ ''/storage/v1/object/''
               @ format_bucket (req_bucket request) @ ''/''
               @ ''filled_'' @ strftime_Ymd_HMS (datetime_now E (clock_reads w' - 1)) @ ''_''
               @ req_filename request
         \<and> res_pdf_url resp =
             Some (rstrip_slash (SUPABASE_URL E) @ ''/storage/v1/object/public/''
               @ format_bucket (req_bucket request) @ ''/''
               @ ''filled_'' @ strftime_Ymd_HMS (datetime_now E (clock_reads w' - 1)) @ ''_''
               @ req_filename request)
         \<and> length (strftime_Ymd_HMS (datetime_now E (clock_reads w' - 1))) = 15
         \<and> res_filename resp \<noteq>
             Some (''filled_'' @ strftime_Ymd_HMS (datetime_now E (clock_reads w' - 1)) @ ''_''
                   @ req_filename request)"
proof -
  from ok obtain w1 filled_pdf public_url where
    up: "upload_to_supabase E w1 (SupabaseStorageClient_init (SUPABASE_URL E) (SUPABASE_KEY E))
           filled_pdf (req_filename request) (req_bucket request) = (w', Inr public_url)"
    and resp: "res_pdf_url resp = Some public_url" "res_filename resp = Some (req_filename request)"
    by (auto simp: fill_pdf_endpoint_def Let_def split: if_splits prod.splits sum.splits)
  note facts = upload_to_supabase_ok [OF up]
  have clock: "clock_reads w' - 1 = clock_reads w1"
    using facts(1) by simp
  have "length (''filled_'' @ strftime_Ymd_HMS (datetime_now E (clock_reads w1)) @ ''_''
                 @ req_filename request) \<noteq> length (req_filename request)"
    by simp
  then have distinct: "req_filename request \<noteq>
      ''filled_'' @ strftime_Ymd_HMS (datetime_now E (clock_reads w1)) @ ''_'' @ req_filename request"
    by metis
  show ?thesis
    unfolding clock using facts(2,3) resp distinct
    by (simp add: SupabaseStorageClient_init_def length_strftime_Ymd_HMS)
qed

text \<open>C10 on the example request for \<open>form.pdf\<close>.\<close>

theorem C10_response_filename_witness:
  "snd (fill_pdf_endpoint example_env example_world example_request)
     = Inr \<lparr>res_success = True,
            res_message = ''PDF '' @ [CHR 0xE5, CHR 0xA1, CHR 0xAB, CHR 0xE5, CHR 0xAF, CHR 0xAB,
                                     CHR 0xE6, CHR 0x88, CHR 0x90, CHR 0xE5, CHR 0x8A, CHR 0x9F],
            res_pdf_url = Some ''https://store.example/storage/v1/object/public/finishpdf/filled_20261104_090501_form.pdf'',
            res_filename = Some ''form.pdf''\<rparr>
   \<and> fst (last (posts (fst (fill_pdf_endpoint example_env example_world example_request))))
     = ''https://store.example/storage/v1/object/finishpdf/filled_20261104_090501_form.pdf''
   \<and> req_filename example_request = ''form.pdf''"
  using C10_response_filename [OF example_endpoint]
  by (simp add: example_endpoint)

end
